theory Spec2Isabelle
  imports Main "HOL-Library.Word"
begin

section \<open>JavaScript values\<close>

text \<open>
  A JavaScript string is a sequence of UTF-16 code units; \<open>length\<close> and \<open>slice\<close>
  count code units. String literals of the source are written \<open>lit ''linux''\<close>.
\<close>

type_synonym js_string = "16 word list"

definition lit :: "string \<Rightarrow> js_string" where
  "lit s = map of_char s"

text \<open>
  The values an entry point can be called with. For a number only its type tag matters
  to the code (\<open>typeof name !== 'string'\<close>).
\<close>

datatype js_value =
    JUndefined
  | JNull
  | JBoolean bool
  | JNumber int
  | JString js_string
  | JObject

datatype js_error = TypeError string

text \<open>The outcome of a host operation that the source wraps in \<open>try\<close>.\<close>

datatype 'a completion = Normal 'a | Throw

text \<open>Truthiness of a property that holds a string or is \<open>undefined\<close> (\<open>None\<close>).\<close>

definition truthy :: "js_string option \<Rightarrow> bool" where
  "truthy v = (case v of None \<Rightarrow> False | Some s \<Rightarrow> s \<noteq> [])"

text \<open>\<open>s.slice(a, b)\<close> for \<open>0 \<le> a \<le> b\<close>.\<close>

definition slice :: "js_string \<Rightarrow> nat \<Rightarrow> nat \<Rightarrow> js_string" where
  "slice s a b = take (b - a) (drop a s)"

subsection \<open>UTF-8 encoding of a string\<close>

text \<open>
  \<open>Buffer.from(string)\<close> (Bun) and \<open>new TextEncoder().encode(string)\<close> (Deno) are host
  primitives, not code of the repository. Both encode the UTF-16 code units as UTF-8:
  a surrogate pair becomes one four-byte sequence, and a surrogate without its partner
  becomes U+FFFD (\<open>EF BF BD\<close>).
\<close>

definition is_high_surrogate :: "16 word \<Rightarrow> bool" where
  "is_high_surrogate c = (0xD800 \<le> c \<and> c \<le> 0xDBFF)"

definition is_low_surrogate :: "16 word \<Rightarrow> bool" where
  "is_low_surrogate c = (0xDC00 \<le> c \<and> c \<le> 0xDFFF)"

definition utf8_code_point :: "nat \<Rightarrow> 8 word list" where
  "utf8_code_point cp =
     (if cp < 0x80 then [of_nat cp]
      else if cp < 0x800 then
        [of_nat (0xC0 + cp div 0x40), of_nat (0x80 + cp mod 0x40)]
      else if cp < 0x10000 then
        [of_nat (0xE0 + cp div 0x1000), of_nat (0x80 + cp div 0x40 mod 0x40),
         of_nat (0x80 + cp mod 0x40)]
      else
        [of_nat (0xF0 + cp div 0x40000), of_nat (0x80 + cp div 0x1000 mod 0x40),
         of_nat (0x80 + cp div 0x40 mod 0x40), of_nat (0x80 + cp mod 0x40)])"

definition replacement_character :: "8 word list" where
  "replacement_character = [0xEF, 0xBF, 0xBD]"

fun utf8_encode :: "js_string \<Rightarrow> 8 word list" where
  "utf8_encode [] = []"
| "utf8_encode [c] =
     (if is_high_surrogate c \<or> is_low_surrogate c then replacement_character
      else utf8_code_point (unat c))"
| "utf8_encode (c # d # cs) =
     (if is_high_surrogate c \<and> is_low_surrogate d then
        utf8_code_point (0x10000 + (unat c - 0xD800) * 0x400 + (unat d - 0xDC00))
          @ utf8_encode cs
      else if is_high_surrogate c \<or> is_low_surrogate c then
        replacement_character @ utf8_encode (d # cs)
      else utf8_code_point (unat c) @ utf8_encode (d # cs))"

section \<open>The host environment\<close>

text \<open>
  What the code reads from the globals \<open>Deno\<close> and \<open>process\<close>, and how the host's
  facilities answer. A global is \<open>None\<close> when \<open>typeof\<close> gives \<open>'undefined'\<close>, and an
  object otherwise. A property that holds a string is \<open>None\<close> when it is \<open>undefined\<close>.
\<close>

record process_versions =
  versions_bun :: "js_string option"
  versions_node :: "js_string option"

text \<open>
  \<open>process_title_set p name t\<close> is the assignment \<open>process.title = name\<close> when the
  title is \<open>t\<close>: it throws and leaves the title as it was, or it leaves the title that
  is read back afterwards (a host may store the name, shorten it or ignore it). Reading
  \<open>process.title\<close> does not throw. \<open>process_argv0_set\<close> likewise for
  \<open>process.argv0 = name\<close>.
\<close>

record process_object =
  process_versions :: "process_versions option"
  process_platform :: "js_string option"
  process_title_set :: "js_string \<Rightarrow> js_string option \<Rightarrow> js_string option completion"
  process_argv0_set :: "js_string \<Rightarrow> js_string option \<Rightarrow> js_string option completion"

text \<open>
  \<open>deno_build_os\<close> is \<open>Deno.build.os\<close>, \<open>None\<close> when \<open>Deno.build\<close> is absent.
  \<open>deno_dlopen\<close> tells whether \<open>Deno.dlopen('libc.so.6', ...)\<close> returns a handle
  (otherwise it throws).
\<close>

record deno_object =
  deno_build_os :: "js_string option"
  deno_dlopen :: bool

text \<open>
  \<open>bun_ffi\<close> tells whether \<open>import('bun:ffi')\<close> and \<open>dlopen('libc.so.6', ...)\<close> succeed;
  \<open>libc_prctl\<close> is the native call \<open>prctl(option, buffer)\<close> with its status, and
  \<open>libc_close\<close> tells whether \<open>libc.close()\<close> returns normally.
\<close>

record host =
  deno :: "deno_object option"
  process :: "process_object option"
  bun_ffi :: bool
  libc_prctl :: "int \<Rightarrow> 8 word list \<Rightarrow> int completion"
  libc_close :: bool

text \<open>
  The mutable state the code touches: the two display fields of \<open>process\<close>, the cached
  Deno library handle of the module (\<open>False\<close> for \<open>null\<close>), and every option and
  buffer handed to \<open>prctl\<close>, oldest first.
\<close>

record world =
  title :: "js_string option"
  argv0 :: "js_string option"
  denoLibcHandle :: bool
  prctl_calls :: "(int \<times> 8 word list) list"

section \<open>Environment detection\<close>

datatype runtime = Node | Bun | Deno | Unknown

definition detectRuntime :: "host \<Rightarrow> runtime" where
  "detectRuntime h =
     (if deno h \<noteq> None then Deno
      else if (case process h of
                 None \<Rightarrow> False
               | Some p \<Rightarrow>
                   (case process_versions p of
                      None \<Rightarrow> False
                    | Some v \<Rightarrow> truthy (versions_bun v))) then Bun
      else if (case process h of
                 None \<Rightarrow> False
               | Some p \<Rightarrow>
                   (case process_versions p of
                      None \<Rightarrow> False
                    | Some v \<Rightarrow> truthy (versions_node v))) then Node
      else Unknown)"

definition detectPlatform :: "host \<Rightarrow> js_string" where
  "detectPlatform h =
     (case (case deno h of None \<Rightarrow> None | Some d \<Rightarrow> deno_build_os d) of
        Some os \<Rightarrow>
          if os = lit ''linux'' then lit ''linux''
          else if os = lit ''darwin'' then lit ''darwin''
          else if os = lit ''windows'' then lit ''win32''
          else lit ''unknown''
      | None \<Rightarrow>
          (case process h of
             None \<Rightarrow> lit ''unknown''
           | Some p \<Rightarrow>
               (case process_platform p of
                  None \<Rightarrow> lit ''unknown''
                | Some pl \<Rightarrow> if pl \<noteq> [] then pl else lit ''unknown'')))"

section \<open>The native appliers\<close>

definition PR_SET_NAME :: int where
  "PR_SET_NAME = 15"

definition setProcessNameLinuxBunFFI :: "host \<Rightarrow> js_string \<Rightarrow> world \<Rightarrow> bool \<times> world" where
  "setProcessNameLinuxBunFFI h name w =
     (if \<not> bun_ffi h then (False, w)
      else
        let truncatedName = slice name 0 15;
            buf = utf8_encode (truncatedName @ [0]);
            w1 = w\<lparr>prctl_calls := prctl_calls w @ [(PR_SET_NAME, buf)]\<rparr>
        in (case libc_prctl h PR_SET_NAME buf of
              Throw \<Rightarrow> (False, w1)
            | Normal result \<Rightarrow> if libc_close h then (result = 0, w1) else (False, w1)))"

definition setProcessNameLinuxDenoFFI :: "host \<Rightarrow> js_string \<Rightarrow> world \<Rightarrow> bool \<times> world" where
  "setProcessNameLinuxDenoFFI h name w =
     (case (if denoLibcHandle w then Normal w
            else (case deno h of
                    None \<Rightarrow> Throw
                  | Some d \<Rightarrow>
                      if deno_dlopen d then Normal (w\<lparr>denoLibcHandle := True\<rparr>)
                      else Throw)) of
        Throw \<Rightarrow> (False, w)
      | Normal w1 \<Rightarrow>
          let truncatedName = slice name 0 15;
              buf = utf8_encode (truncatedName @ [0]);
              w2 = w1\<lparr>prctl_calls := prctl_calls w1 @ [(PR_SET_NAME, buf)]\<rparr>
          in (case libc_prctl h PR_SET_NAME buf of
                Throw \<Rightarrow> (False, w2)
              | Normal result \<Rightarrow> (result = 0, w2)))"

section \<open>The name setter\<close>

record set_result =
  success :: bool
  processTitle :: "bool option"
  prctl :: "bool option"
  runtime :: runtime
  platform :: js_string

text \<open>
  The suspension-capable entry point. A call runs as one sequence of steps: the
  \<open>await\<close> of the Bun applier is the applier's run. A rejected promise is \<open>Inl\<close>.
\<close>

definition setProcessName :: "host \<Rightarrow> js_value \<Rightarrow> world \<Rightarrow> (js_error + set_result) \<times> world" where
  "setProcessName h name w =
     (case name of
        JString n \<Rightarrow>
          let rt = detectRuntime h;
              pf = detectPlatform h;
              result = \<lparr>success = False, processTitle = None, prctl = None,
                        runtime = rt, platform = pf\<rparr>;
              (result, w) =
                (case process h of
                   None \<Rightarrow> (result, w)
                 | Some p \<Rightarrow>
                     let (result, w) =
                           (case process_title_set p n (title w) of
                              Normal t \<Rightarrow>
                                let w = w\<lparr>title := t\<rparr>;
                                    result = result\<lparr>processTitle := Some (title w = Some n)\<rparr>;
                                    result = result\<lparr>success := (processTitle result = Some True)\<rparr>
                                in (result, w)
                            | Throw \<Rightarrow> (result\<lparr>processTitle := Some False\<rparr>, w));
                         w = (case process_argv0_set p n (argv0 w) of
                                Normal a \<Rightarrow> w\<lparr>argv0 := a\<rparr>
                              | Throw \<Rightarrow> w)
                     in (result, w))
          in
            if pf = lit ''linux'' then
              if rt = Bun then
                let (r, w) = setProcessNameLinuxBunFFI h n w;
                    result = result\<lparr>prctl := Some r\<rparr>;
                    result = result\<lparr>success := (success result \<or> r)\<rparr>
                in (Inr result, w)
              else if rt = Deno then
                let (r, w) = setProcessNameLinuxDenoFFI h n w;
                    result = result\<lparr>prctl := Some r\<rparr>;
                    result = result\<lparr>success := (success result \<or> r)\<rparr>
                in (Inr result, w)
              else (Inr result, w)
            else (Inr result, w)
      | _ \<Rightarrow> (Inl (TypeError ''Process name must be a string''), w))"

text \<open>The blocking entry point.\<close>

definition setProcessNameSync :: "host \<Rightarrow> js_value \<Rightarrow> world \<Rightarrow> (js_error + set_result) \<times> world" where
  "setProcessNameSync h name w =
     (case name of
        JString n \<Rightarrow>
          let rt = detectRuntime h;
              pf = detectPlatform h;
              result = \<lparr>success = False, processTitle = None, prctl = None,
                        runtime = rt, platform = pf\<rparr>;
              (result, w) =
                (case process h of
                   None \<Rightarrow> (result, w)
                 | Some p \<Rightarrow>
                     let (result, w) =
                           (case process_title_set p n (title w) of
                              Normal t \<Rightarrow>
                                let w = w\<lparr>title := t\<rparr>;
                                    result = result\<lparr>processTitle := Some (title w = Some n)\<rparr>;
                                    result = result\<lparr>success := (processTitle result = Some True)\<rparr>
                                in (result, w)
                            | Throw \<Rightarrow> (result\<lparr>processTitle := Some False\<rparr>, w));
                         w = (case process_argv0_set p n (argv0 w) of
                                Normal a \<Rightarrow> w\<lparr>argv0 := a\<rparr>
                              | Throw \<Rightarrow> w)
                     in (result, w))
          in
            if pf = lit ''linux'' \<and> rt = Deno then
              let (r, w) = setProcessNameLinuxDenoFFI h n w;
                  result = result\<lparr>prctl := Some r\<rparr>;
                  result = result\<lparr>success := (success result \<or> r)\<rparr>
              in (Inr result, w)
            else (Inr result, w)
      | _ \<Rightarrow> (Inl (TypeError ''Process name must be a string''), w))"

section \<open>Read-back and capabilities\<close>

definition getProcessName :: "host \<Rightarrow> world \<Rightarrow> js_string option" where
  "getProcessName h w =
     (if process h \<noteq> None \<and> truthy (title w) then title w else None)"

record capabilities =
  canSetTitle :: bool
  canSetPrctl :: bool
  caps_runtime :: runtime
  caps_platform :: js_string

definition getCapabilities :: "host \<Rightarrow> world \<Rightarrow> capabilities" where
  "getCapabilities h w =
     (let rt = detectRuntime h;
          pf = detectPlatform h
      in \<lparr>canSetTitle = (process h \<noteq> None \<and> title w \<noteq> None),
          canSetPrctl = (pf = lit ''linux'' \<and> (rt = Node \<or> rt = Bun)),
          caps_runtime = rt,
          caps_platform = pf\<rparr>)"

section \<open>Concrete hosts\<close>

text \<open>
  Hosts on which the statements below are evaluated. \<open>stores_name\<close> is an assignment
  to a plain property: afterwards the property holds the assigned name.
\<close>

definition stores_name :: "js_string \<Rightarrow> js_string option \<Rightarrow> js_string option completion" where
  "stores_name name t = Normal (Some name)"

definition always_throws :: "js_string \<Rightarrow> js_string option \<Rightarrow> js_string option completion" where
  "always_throws name t = Throw"

definition prctl_ok :: "int \<Rightarrow> 8 word list \<Rightarrow> int completion" where
  "prctl_ok opt buf = Normal 0"

text \<open>Node.js on the platform \<open>pf\<close>: no \<open>Deno\<close> global, no Bun version.\<close>

definition node_host :: "js_string \<Rightarrow> host" where
  "node_host pf =
     \<lparr>deno = None,
      process = Some \<lparr>process_versions =
                         Some \<lparr>versions_bun = None, versions_node = Some (lit ''20.11.0'')\<rparr>,
                       process_platform = Some pf,
                       process_title_set = stores_name,
                       process_argv0_set = stores_name\<rparr>,
      bun_ffi = False,
      libc_prctl = prctl_ok,
      libc_close = True\<rparr>"

text \<open>Bun on the platform \<open>pf\<close>; Bun reports a Node.js version as well.\<close>

definition bun_host :: "js_string \<Rightarrow> host" where
  "bun_host pf =
     \<lparr>deno = None,
      process = Some \<lparr>process_versions =
                         Some \<lparr>versions_bun = Some (lit ''1.1.0''),
                               versions_node = Some (lit ''22.0.0'')\<rparr>,
                       process_platform = Some pf,
                       process_title_set = stores_name,
                       process_argv0_set = stores_name\<rparr>,
      bun_ffi = True,
      libc_prctl = prctl_ok,
      libc_close = True\<rparr>"

text \<open>Deno with \<open>Deno.build.os = os\<close>, FFI permitted, and its \<open>process\<close> global.\<close>

definition deno_host :: "js_string \<Rightarrow> host" where
  "deno_host os =
     \<lparr>deno = Some \<lparr>deno_build_os = Some os, deno_dlopen = True\<rparr>,
      process = Some \<lparr>process_versions =
                         Some \<lparr>versions_bun = None, versions_node = Some (lit ''22.0.0'')\<rparr>,
                       process_platform = Some os,
                       process_title_set = stores_name,
                       process_argv0_set = stores_name\<rparr>,
      bun_ffi = False,
      libc_prctl = prctl_ok,
      libc_close = True\<rparr>"

text \<open>
  Bun on Linux where nothing works: both assignments throw and the FFI module does not
  load.
\<close>

definition failing_bun_host :: host where
  "failing_bun_host =
     \<lparr>deno = None,
      process = Some \<lparr>process_versions =
                         Some \<lparr>versions_bun = Some (lit ''1.1.0''),
                               versions_node = Some (lit ''22.0.0'')\<rparr>,
                       process_platform = Some (lit ''linux''),
                       process_title_set = always_throws,
                       process_argv0_set = always_throws\<rparr>,
      bun_ffi = False,
      libc_prctl = prctl_ok,
      libc_close = True\<rparr>"

definition initial_world :: world where
  "initial_world =
     \<lparr>title = Some (lit ''node''), argv0 = Some (lit ''node''),
      denoLibcHandle = False, prctl_calls = []\<rparr>"

text \<open>Fifteen euro signs (U+20AC), a name of 15 code units.\<close>

definition fifteen_euro_signs :: js_string where
  "fifteen_euro_signs =
     [0x20AC, 0x20AC, 0x20AC, 0x20AC, 0x20AC, 0x20AC, 0x20AC, 0x20AC,
      0x20AC, 0x20AC, 0x20AC, 0x20AC, 0x20AC, 0x20AC, 0x20AC]"

section \<open>Evaluation on the concrete hosts\<close>

lemmas entry_defs = setProcessName_def setProcessNameSync_def

lemmas ffi_defs = setProcessNameLinuxBunFFI_def setProcessNameLinuxDenoFFI_def

lemmas host_defs = node_host_def bun_host_def deno_host_def failing_bun_host_def
  initial_world_def stores_name_def always_throws_def prctl_ok_def

lemmas eval_defs = entry_defs ffi_defs host_defs detectRuntime_def detectPlatform_def
  getCapabilities_def getProcessName_def truthy_def slice_def PR_SET_NAME_def lit_def
  utf8_code_point_def is_high_surrogate_def is_low_surrogate_def

lemma node_linux_async:
  "setProcessName (node_host (lit ''linux'')) (JString (lit ''my-app'')) initial_world =
     (Inr \<lparr>success = True, processTitle = Some True, prctl = None,
           runtime = Node, platform = lit ''linux''\<rparr>,
      \<lparr>title = Some (lit ''my-app''), argv0 = Some (lit ''my-app''),
       denoLibcHandle = False, prctl_calls = []\<rparr>)"
  by (simp add: eval_defs)

lemma node_linux_sync:
  "setProcessNameSync (node_host (lit ''linux'')) (JString (lit ''my-app'')) initial_world =
     (Inr \<lparr>success = True, processTitle = Some True, prctl = None,
           runtime = Node, platform = lit ''linux''\<rparr>,
      \<lparr>title = Some (lit ''my-app''), argv0 = Some (lit ''my-app''),
       denoLibcHandle = False, prctl_calls = []\<rparr>)"
  by (simp add: eval_defs)

lemma node_linux_empty_name:
  "setProcessName (node_host (lit ''linux'')) (JString []) initial_world =
     (Inr \<lparr>success = True, processTitle = Some True, prctl = None,
           runtime = Node, platform = lit ''linux''\<rparr>,
      \<lparr>title = Some [], argv0 = Some [], denoLibcHandle = False, prctl_calls = []\<rparr>)"
  by (simp add: eval_defs)

lemma bun_linux_async:
  "fst (setProcessName (bun_host (lit ''linux'')) (JString (lit ''my-app'')) initial_world) =
     Inr \<lparr>success = True, processTitle = Some True, prctl = Some True,
          runtime = Bun, platform = lit ''linux''\<rparr>"
  by (simp add: eval_defs)

lemma bun_linux_sync:
  "fst (setProcessNameSync (bun_host (lit ''linux'')) (JString (lit ''my-app'')) initial_world) =
     Inr \<lparr>success = True, processTitle = Some True, prctl = None,
          runtime = Bun, platform = lit ''linux''\<rparr>"
  by (simp add: eval_defs)

lemma failing_bun_async:
  "setProcessName failing_bun_host (JString (lit ''my-app'')) initial_world =
     (Inr \<lparr>success = False, processTitle = Some False, prctl = Some False,
           runtime = Bun, platform = lit ''linux''\<rparr>,
      initial_world)"
  by (simp add: eval_defs)

lemma failing_bun_sync:
  "setProcessNameSync failing_bun_host (JString (lit ''my-app'')) initial_world =
     (Inr \<lparr>success = False, processTitle = Some False, prctl = None,
           runtime = Bun, platform = lit ''linux''\<rparr>,
      initial_world)"
  by (simp add: eval_defs)

lemma detect_node_linux:
  "detectPlatform (node_host (lit ''linux'')) = lit ''linux'' \<and>
   detectRuntime (node_host (lit ''linux'')) = Node"
  by (simp add: eval_defs)

lemma detect_bun_linux:
  "detectPlatform (bun_host (lit ''linux'')) = lit ''linux'' \<and>
   detectRuntime (bun_host (lit ''linux'')) = Bun"
  by (simp add: eval_defs)

section \<open>Properties of the steps\<close>

lemma bun_ffi_title:
  "setProcessNameLinuxBunFFI h n w = (r, w') \<Longrightarrow> title w' = title w"
  by (auto simp: setProcessNameLinuxBunFFI_def Let_def split: if_splits completion.splits)

lemma deno_ffi_title:
  "setProcessNameLinuxDenoFFI h n w = (r, w') \<Longrightarrow> title w' = title w"
  by (auto simp: setProcessNameLinuxDenoFFI_def Let_def
      split: if_splits completion.splits option.splits)

lemma title_after_setProcessName:
  assumes "setProcessName h (JString n) w = (Inr r, w')"
    and "processTitle r = Some True"
  shows "process h \<noteq> None \<and> title w' = Some n"
  using assms
  by (auto simp: setProcessName_def Let_def
      dest!: bun_ffi_title deno_ffi_title
      split: option.splits completion.splits prod.splits if_splits)

lemma detectRuntime_argv0:
  "detectRuntime (h\<lparr>process := Some (p\<lparr>process_argv0_set := f\<rparr>)\<rparr>) =
   detectRuntime (h\<lparr>process := Some p\<rparr>)"
  by (simp add: detectRuntime_def)

lemma detectPlatform_argv0:
  "detectPlatform (h\<lparr>process := Some (p\<lparr>process_argv0_set := f\<rparr>)\<rparr>) =
   detectPlatform (h\<lparr>process := Some p\<rparr>)"
  by (simp add: detectPlatform_def split: option.split)

lemma bun_ffi_process:
  "setProcessNameLinuxBunFFI (h\<lparr>process := x\<rparr>) n w = setProcessNameLinuxBunFFI h n w"
  by (simp add: setProcessNameLinuxBunFFI_def Let_def split: completion.split)

lemma deno_ffi_process:
  "setProcessNameLinuxDenoFFI (h\<lparr>process := x\<rparr>) n w = setProcessNameLinuxDenoFFI h n w"
  by (simp add: setProcessNameLinuxDenoFFI_def Let_def split: completion.split option.split)

lemma bun_ffi_argv0:
  "fst (setProcessNameLinuxBunFFI h n (w\<lparr>argv0 := a\<rparr>)) =
   fst (setProcessNameLinuxBunFFI h n w)"
  by (simp add: setProcessNameLinuxBunFFI_def Let_def split: completion.splits)

lemma deno_ffi_argv0:
  "fst (setProcessNameLinuxDenoFFI h n (w\<lparr>argv0 := a\<rparr>)) =
   fst (setProcessNameLinuxDenoFFI h n w)"
  by (simp add: setProcessNameLinuxDenoFFI_def Let_def split: completion.splits option.splits)

subsection \<open>Truncation and the buffer of the native call\<close>

lemma slice_keeps_short_name:
  "length name \<le> 15 \<Longrightarrow> slice name 0 15 = name"
  by (simp add: slice_def)

lemma slice_cuts_long_name:
  "16 \<le> length name \<Longrightarrow> slice name 0 15 = take 15 name \<and> length (slice name 0 15) = 15"
  by (simp add: slice_def)

lemma bun_ffi_buffer:
  "bun_ffi h \<Longrightarrow>
     prctl_calls (snd (setProcessNameLinuxBunFFI h name w)) =
       prctl_calls w @ [(15, utf8_encode (take 15 name @ [0]))]"
  by (simp add: setProcessNameLinuxBunFFI_def Let_def slice_def PR_SET_NAME_def
      split: completion.splits)

lemma deno_ffi_buffer:
  "denoLibcHandle w \<Longrightarrow>
     prctl_calls (snd (setProcessNameLinuxDenoFFI h name w)) =
       prctl_calls w @ [(15, utf8_encode (take 15 name @ [0]))]"
  by (simp add: setProcessNameLinuxDenoFFI_def Let_def slice_def PR_SET_NAME_def
      split: completion.splits)

lemma ascii_not_surrogate:
  "c < 0x80 \<Longrightarrow> \<not> is_high_surrogate c \<and> \<not> is_low_surrogate c"
  by (auto simp: is_high_surrogate_def is_low_surrogate_def word_le_nat_alt word_less_nat_alt)

lemma utf8_encode_ascii_length:
  "list_all (\<lambda>c. c < 0x80) s \<Longrightarrow> length (utf8_encode s) = length s"
proof (induction s rule: utf8_encode.induct)
  case 1
  show ?case by simp
next
  case (2 c)
  then show ?case
    using ascii_not_surrogate [of c]
    by (simp add: utf8_code_point_def word_less_nat_alt)
next
  case (3 c d cs)
  then show ?case
    using ascii_not_surrogate [of c]
    by (simp add: utf8_code_point_def word_less_nat_alt)
qed

lemma ascii_buffer_fits:
  assumes "list_all (\<lambda>c. c < 0x80) name"
  shows "length (utf8_encode (slice name 0 15 @ [0])) \<le> 16"
proof -
  have "list_all (\<lambda>c. c < 0x80) (slice name 0 15 @ [0])"
    using assms by (auto simp: slice_def list_all_iff dest: in_set_takeD)
  then have "length (utf8_encode (slice name 0 15 @ [0])) = length (slice name 0 15 @ [0])"
    by (rule utf8_encode_ascii_length)
  then show ?thesis by (simp add: slice_def)
qed

lemma detectPlatform_deno:
  assumes "deno h = Some d" and "deno_build_os d = Some os"
  shows "detectPlatform h = lit ''linux'' \<or> detectPlatform h = lit ''darwin'' \<or>
         detectPlatform h = lit ''win32'' \<or> detectPlatform h = lit ''unknown''"
  using assms by (simp add: detectPlatform_def)

lemma deno_linux_async:
  "canSetPrctl (getCapabilities (deno_host (lit ''linux'')) initial_world) = False \<and>
   fst (setProcessName (deno_host (lit ''linux'')) (JString (lit ''my-app'')) initial_world) =
     Inr \<lparr>success = True, processTitle = Some True, prctl = Some True,
          runtime = Deno, platform = lit ''linux''\<rparr>"
  by (simp add: eval_defs)

section \<open>The capability query and the attempt policy\<close>

text \<open>
  Claim C1, as amended. In every environment other than Deno on Linux,
  \<open>getCapabilities().canSetPrctl\<close> is true if and only if a \<open>setProcessName\<close> call in
  that environment either sets the \<open>prctl\<close> field of its result to a boolean, or runs
  under Node.js on Linux, where the field stays \<open>null\<close> because the title write reaches
  \<open>prctl\<close> inside the runtime.
\<close>

theorem canSetPrctl_consistent_except_deno_linux:
  assumes "fst (setProcessName h name w) = Inr r"
    and "\<not> (detectPlatform h = lit ''linux'' \<and> detectRuntime h = Deno)"
  shows "canSetPrctl (getCapabilities h w) =
           (prctl r \<noteq> None \<or> (detectPlatform h = lit ''linux'' \<and> detectRuntime h = Node))"
  using assms
  by (cases "detectRuntime h")
     (auto simp: getCapabilities_def setProcessName_def Let_def
      split: js_value.splits option.splits completion.splits prod.splits if_splits)

text \<open>The amended statement on Bun on Linux: capable, and the native call is attempted.\<close>

theorem canSetPrctl_consistent_bun_linux:
  "fst (setProcessName (bun_host (lit ''linux'')) (JString (lit ''my-app'')) initial_world) =
     Inr \<lparr>success = True, processTitle = Some True, prctl = Some True,
          runtime = Bun, platform = lit ''linux''\<rparr> \<and>
   canSetPrctl (getCapabilities (bun_host (lit ''linux'')) initial_world) = True"
proof -
  have deno: "\<not> (detectPlatform (bun_host (lit ''linux'')) = lit ''linux'' \<and>
                 detectRuntime (bun_host (lit ''linux'')) = Deno)"
    by (simp add: detect_bun_linux)
  show ?thesis
    using canSetPrctl_consistent_except_deno_linux [OF bun_linux_async deno] bun_linux_async
    by simp
qed

text \<open>
  Claim C1 as stated fails under Node.js on Linux: the query answers true and the
  setter leaves \<open>prctl\<close> at \<open>null\<close>.
\<close>

theorem canSetPrctl_diverges_node_linux:
  "canSetPrctl (getCapabilities (node_host (lit ''linux'')) initial_world) = True \<and>
   fst (setProcessName (node_host (lit ''linux'')) (JString (lit ''my-app'')) initial_world) =
     Inr \<lparr>success = True, processTitle = Some True, prctl = None,
          runtime = Node, platform = lit ''linux''\<rparr>"
  by (simp add: node_linux_async getCapabilities_def Let_def detect_node_linux)

text \<open>
  Claim C2, as amended. The \<open>prctl\<close> field of a result of \<open>setProcessName\<close> is a boolean
  if and only if the detected platform is \<open>'linux'\<close> and the runtime is Bun or Deno; the
  \<open>prctl\<close> field of a result of \<open>setProcessNameSync\<close> is a boolean if and only if the
  detected platform is \<open>'linux'\<close> and the runtime is Deno. On both entry points it is
  \<open>null\<close> whenever the platform is anything but \<open>'linux'\<close>.
\<close>

theorem prctl_attempted_iff:
  "(fst (setProcessName h name w) = Inr r \<longrightarrow>
      (prctl r \<noteq> None) =
        (detectPlatform h = lit ''linux'' \<and> (detectRuntime h = Bun \<or> detectRuntime h = Deno)) \<and>
      (platform r \<noteq> lit ''linux'' \<longrightarrow> prctl r = None)) \<and>
   (fst (setProcessNameSync h name w) = Inr r' \<longrightarrow>
      (prctl r' \<noteq> None) = (detectPlatform h = lit ''linux'' \<and> detectRuntime h = Deno) \<and>
      (platform r' \<noteq> lit ''linux'' \<longrightarrow> prctl r' = None))"
  by (auto simp: entry_defs Let_def
      split: js_value.splits option.splits completion.splits prod.splits if_splits)

text \<open>The amended statement on Bun on Linux, for both entry points.\<close>

theorem prctl_attempted_iff_bun_linux:
  "fst (setProcessName (bun_host (lit ''linux'')) (JString (lit ''my-app'')) initial_world) =
     Inr \<lparr>success = True, processTitle = Some True, prctl = Some True,
          runtime = Bun, platform = lit ''linux''\<rparr> \<and>
   fst (setProcessNameSync (bun_host (lit ''linux'')) (JString (lit ''my-app'')) initial_world) =
     Inr \<lparr>success = True, processTitle = Some True, prctl = None,
          runtime = Bun, platform = lit ''linux''\<rparr> \<and>
   detectPlatform (bun_host (lit ''linux'')) = lit ''linux'' \<and>
   detectRuntime (bun_host (lit ''linux'')) = Bun"
  using prctl_attempted_iff [of "bun_host (lit ''linux'')" "JString (lit ''my-app'')"
      initial_world
      "\<lparr>success = True, processTitle = Some True, prctl = Some True,
        runtime = Bun, platform = lit ''linux''\<rparr>"
      "\<lparr>success = True, processTitle = Some True, prctl = None,
        runtime = Bun, platform = lit ''linux''\<rparr>"]
    bun_linux_async bun_linux_sync detect_bun_linux
  by simp

text \<open>
  Claim C2 as stated fails for the blocking entry point under Bun on Linux: the platform
  is Linux and the host's native facility works (the other entry point uses it with
  success), and still the \<open>prctl\<close> field is \<open>null\<close>.
\<close>

theorem prctl_sync_skips_bun_linux:
  "detectPlatform (bun_host (lit ''linux'')) = lit ''linux'' \<and>
   fst (setProcessName (bun_host (lit ''linux'')) (JString (lit ''my-app'')) initial_world) =
     Inr \<lparr>success = True, processTitle = Some True, prctl = Some True,
          runtime = Bun, platform = lit ''linux''\<rparr> \<and>
   fst (setProcessNameSync (bun_host (lit ''linux'')) (JString (lit ''my-app'')) initial_world) =
     Inr \<lparr>success = True, processTitle = Some True, prctl = None,
          runtime = Bun, platform = lit ''linux''\<rparr>"
  by (simp add: bun_linux_async bun_linux_sync detect_bun_linux)

section \<open>The buffer handed to the native call\<close>

text \<open>
  Claim C3 at a name of fifteen euro signs. The name has 15 code units and is not
  truncated, and the buffer handed to \<open>prctl\<close> has 46 bytes, not at most 16, under Bun
  and under Deno.
\<close>

theorem native_buffer_exceeds_16_bytes:
  "length fifteen_euro_signs = 15 \<and>
   map (\<lambda>(opt, buf). (opt, length buf))
     (prctl_calls (snd (setProcessName (bun_host (lit ''linux''))
        (JString fifteen_euro_signs) initial_world))) = [(15, 46)] \<and>
   map (\<lambda>(opt, buf). (opt, length buf))
     (prctl_calls (snd (setProcessNameSync (deno_host (lit ''linux''))
        (JString fifteen_euro_signs) initial_world))) = [(15, 46)]"
  by (simp add: eval_defs fifteen_euro_signs_def)

section \<open>Errors\<close>

text \<open>
  Claim C4. For every input that is not a string, both entry points raise the TypeError
  and leave the state as it was (no mechanism has run), and return no result record; for
  every string, the empty one included, both entry points return a result record.
\<close>

theorem invalid_argument_only_for_non_strings:
  "((\<forall>s. name \<noteq> JString s) \<longrightarrow>
      setProcessName h name w = (Inl (TypeError ''Process name must be a string''), w) \<and>
      setProcessNameSync h name w = (Inl (TypeError ''Process name must be a string''), w)) \<and>
   (\<exists>r. fst (setProcessName h (JString s) w) = Inr r) \<and>
   (\<exists>r. fst (setProcessNameSync h (JString s) w) = Inr r)"
  by (auto simp: entry_defs Let_def
      split: js_value.splits option.splits completion.splits prod.splits if_splits)

text \<open>Claim C4 at the number 123 and at \<open>null\<close>.\<close>

theorem invalid_argument_examples:
  "setProcessName (node_host (lit ''linux'')) (JNumber 123) initial_world =
     (Inl (TypeError ''Process name must be a string''), initial_world) \<and>
   setProcessNameSync (node_host (lit ''linux'')) JNull initial_world =
     (Inl (TypeError ''Process name must be a string''), initial_world)"
  using invalid_argument_only_for_non_strings
      [of "JNumber 123" "node_host (lit ''linux'')" initial_world]
    invalid_argument_only_for_non_strings
      [of JNull "node_host (lit ''linux'')" initial_world]
  by simp

section \<open>The result record\<close>

text \<open>
  Claim C5. In every result record, of either entry point, \<open>success\<close> is the disjunction
  of \<open>processTitle\<close> being \<open>true\<close> and \<open>prctl\<close> being \<open>true\<close>.
\<close>

theorem success_is_or_of_mechanisms:
  "(fst (setProcessName h name w) = Inr r \<longrightarrow>
      success r = (processTitle r = Some True \<or> prctl r = Some True)) \<and>
   (fst (setProcessNameSync h name w) = Inr r' \<longrightarrow>
      success r' = (processTitle r' = Some True \<or> prctl r' = Some True))"
  by (auto simp: entry_defs Let_def
      split: js_value.splits option.splits completion.splits prod.splits if_splits)

text \<open>
  Claim C5 where every attempted mechanism fails: under Bun on Linux with a title write
  that throws and an FFI module that does not load, \<open>success\<close> is \<open>false\<close> on both
  entry points.
\<close>

theorem success_is_or_failing_bun:
  "fst (setProcessName failing_bun_host (JString (lit ''my-app'')) initial_world) =
     Inr \<lparr>success = False, processTitle = Some False, prctl = Some False,
          runtime = Bun, platform = lit ''linux''\<rparr> \<and>
   fst (setProcessNameSync failing_bun_host (JString (lit ''my-app'')) initial_world) =
     Inr \<lparr>success = False, processTitle = Some False, prctl = None,
          runtime = Bun, platform = lit ''linux''\<rparr>"
  using success_is_or_of_mechanisms [of failing_bun_host "JString (lit ''my-app'')"
      initial_world
      "\<lparr>success = False, processTitle = Some False, prctl = Some False,
        runtime = Bun, platform = lit ''linux''\<rparr>"
      "\<lparr>success = False, processTitle = Some False, prctl = None,
        runtime = Bun, platform = lit ''linux''\<rparr>"]
    failing_bun_async failing_bun_sync
  by simp

section \<open>Reading the name back\<close>

text \<open>
  Claim C6, as amended. For every non-empty string \<open>n\<close>, if a \<open>setProcessName\<close> call
  reports \<open>processTitle\<close> as \<open>true\<close>, then \<open>getProcessName()\<close> right after it returns \<open>n\<close>.
\<close>

theorem roundtrip_nonempty_name:
  assumes "n \<noteq> []"
    and "setProcessName h (JString n) w = (Inr r, w')"
    and "processTitle r = Some True"
  shows "getProcessName h w' = Some n"
  using title_after_setProcessName [OF assms(2,3)] assms(1)
  by (simp add: getProcessName_def truthy_def)

text \<open>The amended statement at the name \<open>'my-app'\<close> under Node.js on Linux.\<close>

theorem roundtrip_my_app:
  "lit ''my-app'' \<noteq> [] \<and>
   getProcessName (node_host (lit ''linux''))
     \<lparr>title = Some (lit ''my-app''), argv0 = Some (lit ''my-app''),
      denoLibcHandle = False, prctl_calls = []\<rparr> = Some (lit ''my-app'')"
proof -
  have nonempty: "lit ''my-app'' \<noteq> []"
    by (simp add: lit_def)
  show ?thesis
    using roundtrip_nonempty_name [OF nonempty node_linux_async] nonempty
    by simp
qed

text \<open>
  Claim C6 as stated fails at the empty string: the title write is reported as
  successful, and \<open>getProcessName()\<close> right after it returns \<open>null\<close>.
\<close>

theorem roundtrip_fails_empty_name:
  "fst (setProcessName (node_host (lit ''linux'')) (JString []) initial_world) =
     Inr \<lparr>success = True, processTitle = Some True, prctl = None,
          runtime = Node, platform = lit ''linux''\<rparr> \<and>
   getProcessName (node_host (lit ''linux''))
     (snd (setProcessName (node_host (lit ''linux'')) (JString []) initial_world)) = None"
  by (simp add: node_linux_empty_name getProcessName_def truthy_def)

text \<open>
  Claim C10. When the title is the empty string, \<open>getProcessName()\<close> returns \<open>null\<close>; so
  it does right after a \<open>setProcessName('')\<close> call that reports \<open>processTitle\<close> as \<open>true\<close>.
\<close>

theorem empty_title_reads_as_null:
  "(title w = Some [] \<longrightarrow> getProcessName h w = None) \<and>
   (setProcessName h (JString []) w = (Inr r, w') \<and> processTitle r = Some True \<longrightarrow>
      title w' = Some [] \<and> getProcessName h w' = None)"
  using title_after_setProcessName [of h "[]" w r w']
  by (simp add: getProcessName_def truthy_def)

text \<open>Claim C10 under Node.js on Linux, after \<open>setProcessName('')\<close>.\<close>

theorem empty_title_example:
  "setProcessName (node_host (lit ''linux'')) (JString []) initial_world =
     (Inr \<lparr>success = True, processTitle = Some True, prctl = None,
           runtime = Node, platform = lit ''linux''\<rparr>,
      \<lparr>title = Some [], argv0 = Some [], denoLibcHandle = False, prctl_calls = []\<rparr>) \<and>
   getProcessName (node_host (lit ''linux''))
     \<lparr>title = Some [], argv0 = Some [], denoLibcHandle = False, prctl_calls = []\<rparr> = None"
  using empty_title_reads_as_null [of initial_world "node_host (lit ''linux'')"
      "\<lparr>success = True, processTitle = Some True, prctl = None,
        runtime = Node, platform = lit ''linux''\<rparr>"
      "\<lparr>title = Some [], argv0 = Some [], denoLibcHandle = False, prctl_calls = []\<rparr>"]
    node_linux_empty_name
  by simp

section \<open>The two entry points\<close>

text \<open>
  Claim C7. For every string and every environment other than Bun on Linux, the two
  entry points return the same record (and leave the same state). Under Bun on Linux
  the blocking entry point leaves \<open>prctl\<close> at \<open>null\<close> where the other one reports a
  boolean; \<open>processTitle\<close>, \<open>runtime\<close> and \<open>platform\<close> agree, and \<open>success\<close> of the blocking
  entry point is that of the title mechanism alone.
\<close>

theorem sync_async_same_decisions:
  "(\<not> (detectPlatform h = lit ''linux'' \<and> detectRuntime h = Bun) \<longrightarrow>
      setProcessNameSync h (JString n) w = setProcessName h (JString n) w) \<and>
   (detectPlatform h = lit ''linux'' \<and> detectRuntime h = Bun \<longrightarrow>
      (\<exists>r r'. fst (setProcessName h (JString n) w) = Inr r \<and>
               fst (setProcessNameSync h (JString n) w) = Inr r' \<and>
               prctl r' = None \<and> prctl r \<noteq> None \<and>
               processTitle r' = processTitle r \<and>
               runtime r' = runtime r \<and> platform r' = platform r \<and>
               success r' = (processTitle r = Some True)))"
  by (auto simp: entry_defs Let_def
      split: js_value.splits option.splits completion.splits prod.splits if_splits)

text \<open>Claim C7 under Node.js on Linux (same outcome) and under Bun on Linux.\<close>

theorem sync_async_examples:
  "setProcessNameSync (node_host (lit ''linux'')) (JString (lit ''my-app'')) initial_world =
     setProcessName (node_host (lit ''linux'')) (JString (lit ''my-app'')) initial_world \<and>
   (\<exists>r r'. fst (setProcessName (bun_host (lit ''linux'')) (JString (lit ''my-app''))
              initial_world) = Inr r \<and>
            fst (setProcessNameSync (bun_host (lit ''linux'')) (JString (lit ''my-app''))
              initial_world) = Inr r' \<and>
            prctl r' = None \<and> prctl r \<noteq> None)"
  using sync_async_same_decisions [of "node_host (lit ''linux'')" "lit ''my-app''" initial_world]
    sync_async_same_decisions [of "bun_host (lit ''linux'')" "lit ''my-app''" initial_world]
    detect_node_linux detect_bun_linux
  by auto

section \<open>Platform detection\<close>

text \<open>
  Claim C8 under Node.js on FreeBSD: \<open>detectPlatform\<close> returns \<open>'freebsd'\<close>, which is
  none of \<open>'linux'\<close>, \<open>'darwin'\<close>, \<open>'win32'\<close> and \<open>'unknown'\<close>.
\<close>

theorem detectPlatform_returns_freebsd:
  "detectPlatform (node_host (lit ''freebsd'')) = lit ''freebsd'' \<and>
   lit ''freebsd'' \<noteq> lit ''linux'' \<and> lit ''freebsd'' \<noteq> lit ''darwin'' \<and>
   lit ''freebsd'' \<noteq> lit ''win32'' \<and> lit ''freebsd'' \<noteq> lit ''unknown''"
  by (simp add: eval_defs)

section \<open>The cosmetic write\<close>

text \<open>
  Claim C9. For every string, a host whose \<open>process.argv0\<close> write throws gives, on both
  entry points, the result record of the same host without that failure, and never an
  error.
\<close>

theorem argv0_failure_leaves_result:
  "fst (setProcessName (h\<lparr>process := Some (p\<lparr>process_argv0_set := always_throws\<rparr>)\<rparr>)
         (JString n) w) =
     fst (setProcessName (h\<lparr>process := Some p\<rparr>) (JString n) w) \<and>
   fst (setProcessNameSync (h\<lparr>process := Some (p\<lparr>process_argv0_set := always_throws\<rparr>)\<rparr>)
         (JString n) w) =
     fst (setProcessNameSync (h\<lparr>process := Some p\<rparr>) (JString n) w) \<and>
   (\<exists>r. fst (setProcessName (h\<lparr>process := Some (p\<lparr>process_argv0_set := always_throws\<rparr>)\<rparr>)
              (JString n) w) = Inr r) \<and>
   (\<exists>r. fst (setProcessNameSync (h\<lparr>process := Some (p\<lparr>process_argv0_set := always_throws\<rparr>)\<rparr>)
              (JString n) w) = Inr r)"
  by (simp add: entry_defs Let_def split_beta always_throws_def
      detectRuntime_argv0 detectPlatform_argv0 bun_ffi_process deno_ffi_process
      bun_ffi_argv0 deno_ffi_argv0
      split: completion.split)

end
